theory Spec2Isabelle
  imports Main "HOL-Library.Word"
begin

section \<open>Machine integers of the allocator\<close>

text \<open>
  The allocator of \<^verbatim>\<open>src/vsg/core/Allocator.cpp\<close> computes with three unsigned types:
  \<^verbatim>\<open>size_t\<close> (taken as 64 bits), \<^verbatim>\<open>Element::Index\<close> (the type of the 4-byte index
  cell, 32 bits) and the 15-bit bit-fields \<^verbatim>\<open>previous\<close> and \<^verbatim>\<open>next\<close> of a slot header.
  Values of the first two are modelled as \<^typ>\<open>nat\<close> with the wrap-around written out
  where the source stores into the narrower type or subtracts; the bit-fields are words.
\<close>

definition Index :: "nat \<Rightarrow> nat" where
  "Index n = n mod 2 ^ 32"

definition Index_sub :: "nat \<Rightarrow> nat \<Rightarrow> nat" where
  "Index_sub a b = (a mod 2 ^ 32 + 2 ^ 32 - b mod 2 ^ 32) mod 2 ^ 32"

definition size_t_sub :: "nat \<Rightarrow> nat \<Rightarrow> nat" where
  "size_t_sub a b = (a mod 2 ^ 64 + 2 ^ 64 - b mod 2 ^ 64) mod 2 ^ 64"

definition size_t_mul :: "nat \<Rightarrow> nat \<Rightarrow> nat" where
  "size_t_mul a b = (a * b) mod 2 ^ 64"

definition sizeof_Element :: nat where
  "sizeof_Element = 4"

section \<open>Element\<close>

text \<open>
  Modelled from the spec: the declaration of \<^verbatim>\<open>Element\<close> (in the header
  \<^verbatim>\<open>Allocator.h\<close>) is not among the sources.  The data model describes it as a 4-byte
  record with two overlays: the slot header \<^verbatim>\<open>previous : u15, next : u15, status : u1\<close>
  with one further reserved bit, and the index cell, a single \<^verbatim>\<open>u32\<close>.  The record below
  keeps the four bit groups of the 32-bit cell (\<open>nxt\<close> is the field \<^verbatim>\<open>next\<close>);
  \<open>index\<close> reads them as one number and \<open>Element_index\<close> (the source's conversion
  \<^verbatim>\<open>Element(size_t)\<close> and the assignment to \<^verbatim>\<open>.index\<close>) stores one number into them,
  so that a header read after an index write (and the reverse) sees the same 32 bits, as
  the union does.  A store into a bit-field keeps the low bits of the value
  (\<open>of_nat\<close> into the word).
\<close>

record Element =
  previous :: "15 word"
  nxt :: "15 word"
  status :: "1 word"
  reserved :: "1 word"

definition index :: "Element \<Rightarrow> nat" where
  "index e = unat (previous e) + 2 ^ 15 * unat (nxt e) + 2 ^ 30 * unat (status e)
               + 2 ^ 31 * unat (reserved e)"

definition Element_index :: "nat \<Rightarrow> Element" where
  "Element_index n =
     \<lparr>previous = of_nat n, nxt = of_nat (n div 2 ^ 15),
      status = of_nat (n div 2 ^ 30), reserved = of_nat (n div 2 ^ 31)\<rparr>"

definition Element_slot :: "nat \<Rightarrow> nat \<Rightarrow> nat \<Rightarrow> Element" where
  "Element_slot in_previous in_next in_status =
     \<lparr>previous = of_nat in_previous, nxt = of_nat in_next,
      status = of_nat in_status, reserved = 0\<rparr>"

section \<open>IntrusiveAllocator::MemoryBlock\<close>

text \<open>
  Modelled from the spec: \<^verbatim>\<open>FreeList\<close> is declared in the missing header; the data model
  gives it a head slot index and a count of free slots, with no width, so both are
  unbounded naturals here (the decrement of a zero count, which no well-formed block
  performs, is written as the 32-bit wrap of the index type).
\<close>

record FreeList =
  count :: nat
  head :: nat

text \<open>
  The block.  \<open>memory\<close> is the contents of the raw buffer, one \<open>Element\<close> per
  position; \<open>memory_addr\<close> and \<open>memoryEnd\<close> are the byte addresses held by the
  source's pointers \<^verbatim>\<open>memory\<close> and \<^verbatim>\<open>memoryEnd\<close>.  The source reads and writes
  \<^verbatim>\<open>memory[i]\<close> without a bounds check, so the buffer is a total function of the
  position.  The diagnostic \<^verbatim>\<open>name\<close> is left out.
\<close>

record MemoryBlock =
  memory :: "nat \<Rightarrow> Element"
  memory_addr :: nat
  memoryEnd :: nat
  alignment :: nat
  blockAlignment :: nat
  blockSize :: nat
  elementAlignment :: nat
  capacity :: nat
  maximumAllocationSize :: nat
  freeLists :: "FreeList list"

datatype error =
    AllocatedSlotInFreeList
  | SlotNextZero
  | AlreadyAvailableSlot
  | NoFreeList
  | OutOfRange
  | BadAlloc
  | DanglingBlock

subsection \<open>Writes to the buffer and to a free list\<close>

definition set_Element :: "MemoryBlock \<Rightarrow> nat \<Rightarrow> Element \<Rightarrow> MemoryBlock" where
  "set_Element b i e = b\<lparr>memory := (memory b)(i := e)\<rparr>"

definition slot_previous :: "MemoryBlock \<Rightarrow> nat \<Rightarrow> nat" where
  "slot_previous b i = unat (previous (memory b i))"

definition slot_next :: "MemoryBlock \<Rightarrow> nat \<Rightarrow> nat" where
  "slot_next b i = unat (nxt (memory b i))"

definition slot_status :: "MemoryBlock \<Rightarrow> nat \<Rightarrow> nat" where
  "slot_status b i = unat (status (memory b i))"

definition cell_index :: "MemoryBlock \<Rightarrow> nat \<Rightarrow> nat" where
  "cell_index b i = index (memory b i)"

definition set_index :: "MemoryBlock \<Rightarrow> nat \<Rightarrow> nat \<Rightarrow> MemoryBlock" where
  "set_index b i v = set_Element b i (Element_index v)"

definition set_previous :: "MemoryBlock \<Rightarrow> nat \<Rightarrow> nat \<Rightarrow> MemoryBlock" where
  "set_previous b i v = set_Element b i ((memory b i)\<lparr>previous := of_nat v\<rparr>)"

definition set_next :: "MemoryBlock \<Rightarrow> nat \<Rightarrow> nat \<Rightarrow> MemoryBlock" where
  "set_next b i v = set_Element b i ((memory b i)\<lparr>nxt := of_nat v\<rparr>)"

definition set_status :: "MemoryBlock \<Rightarrow> nat \<Rightarrow> nat \<Rightarrow> MemoryBlock" where
  "set_status b i v = set_Element b i ((memory b i)\<lparr>status := of_nat v\<rparr>)"

definition freeList_at :: "MemoryBlock \<Rightarrow> nat \<Rightarrow> FreeList" where
  "freeList_at b k = freeLists b ! k"

definition set_head :: "MemoryBlock \<Rightarrow> nat \<Rightarrow> nat \<Rightarrow> MemoryBlock" where
  "set_head b k v = b\<lparr>freeLists := (freeLists b)[k := (freeLists b ! k)\<lparr>head := v\<rparr>]\<rparr>"

definition set_count :: "MemoryBlock \<Rightarrow> nat \<Rightarrow> nat \<Rightarrow> MemoryBlock" where
  "set_count b k v = b\<lparr>freeLists := (freeLists b)[k := (freeLists b ! k)\<lparr>count := v\<rparr>]\<rparr>"

definition decrement :: "nat \<Rightarrow> nat" where
  "decrement c = (if c = 0 then 2 ^ 32 - 1 else c - 1)"

subsection \<open>within and freeSlotsAvaible\<close>

text \<open>
  Modelled from the spec: \<^verbatim>\<open>within\<close> is defined in the missing header; the spec gives
  it as "pointer falls inside the block's byte range".
\<close>

definition within :: "MemoryBlock \<Rightarrow> nat \<Rightarrow> bool" where
  "within b ptr \<longleftrightarrow> memory_addr b \<le> ptr \<and> ptr < memoryEnd b"

definition freeSlotsAvaible :: "MemoryBlock \<Rightarrow> nat \<Rightarrow> bool" where
  "freeSlotsAvaible b sz =
     (if sz > maximumAllocationSize b then False
      else list_ex (\<lambda>fl. count fl > 0) (freeLists b))"

subsection \<open>allocate\<close>

definition minimumNumElementsInSlot :: nat where
  "minimumNumElementsInSlot = 3"

definition numElementsToBeUsed :: "nat \<Rightarrow> nat" where
  "numElementsToBeUsed sz =
     Index (max ((sz + sizeof_Element - 1) div sizeof_Element) minimumNumElementsInSlot)"

definition nextAlignedStart :: "MemoryBlock \<Rightarrow> nat \<Rightarrow> nat \<Rightarrow> nat" where
  "nextAlignedStart b sz freePosition =
     Index (((freePosition + 1 + numElementsToBeUsed sz + elementAlignment b)
               div elementAlignment b) * elementAlignment b)"

definition minimumAlignedEnd :: "MemoryBlock \<Rightarrow> nat \<Rightarrow> nat \<Rightarrow> nat" where
  "minimumAlignedEnd b sz freePosition =
     Index (nextAlignedStart b sz freePosition + minimumNumElementsInSlot)"

text \<open>The branch "enough space in slot to split, so adjust" of the source.\<close>

definition split_slot :: "MemoryBlock \<Rightarrow> nat \<Rightarrow> nat \<Rightarrow> nat \<Rightarrow> MemoryBlock" where
  "split_slot b k sz freePosition =
     (let previousFreePosition = cell_index b (freePosition + 1);
          nextFreePosition = cell_index b (freePosition + 2);
          nextPosition = Index (freePosition + slot_next b freePosition);
          newSlotPosition = Index_sub (nextAlignedStart b sz freePosition) 1;
          b1 = set_next b freePosition (size_t_sub newSlotPosition freePosition);
          b2 = set_Element b1 newSlotPosition
                 (Element_slot (slot_next b1 freePosition)
                    (Index_sub nextPosition newSlotPosition) 1);
          b3 = set_index b2 (Index (newSlotPosition + 1)) previousFreePosition;
          b4 = set_index b3 (Index (newSlotPosition + 2)) nextFreePosition;
          b5 = (if previousFreePosition \<noteq> 0
                then set_index b4 (Index (previousFreePosition + 2)) newSlotPosition else b4);
          b6 = (if nextFreePosition \<noteq> 0
                then set_index b5 (Index (nextFreePosition + 1)) newSlotPosition else b5);
          b7 = (if nextPosition < capacity b
                then set_previous b6 nextPosition (slot_next b6 newSlotPosition) else b6)
      in if freePosition = head (freeList_at b7 k) then set_head b7 k newSlotPosition else b7)"

text \<open>The branch "not enough space to split up slot, so remove it from freeList".\<close>

definition remove_slot :: "MemoryBlock \<Rightarrow> nat \<Rightarrow> nat \<Rightarrow> MemoryBlock" where
  "remove_slot b k freePosition =
     (let previousFreePosition = cell_index b (freePosition + 1);
          nextFreePosition = cell_index b (freePosition + 2);
          b1 = (if previousFreePosition \<noteq> 0
                then set_index b (Index (previousFreePosition + 2)) nextFreePosition else b);
          b2 = (if nextFreePosition \<noteq> 0
                then set_index b1 (Index (nextFreePosition + 1)) previousFreePosition else b1);
          b3 = (if freePosition = head (freeList_at b2 k) then set_head b2 k nextFreePosition
                else b2)
      in set_count b3 k (decrement (count (freeList_at b3 k))))"

text \<open>
  The body of \<^verbatim>\<open>if (size <= slotSize)\<close>: split or remove, mark the slot allocated and
  return the address of \<^verbatim>\<open>memory[freePosition+1]\<close>.
\<close>

definition use_slot ::
  "MemoryBlock \<Rightarrow> nat \<Rightarrow> nat \<Rightarrow> nat \<Rightarrow> (error + nat option) \<times> MemoryBlock"
where
  "use_slot b k sz freePosition =
     (let nextPosition = Index (freePosition + slot_next b freePosition);
          b1 = (if minimumAlignedEnd b sz freePosition < nextPosition
                then split_slot b k sz freePosition
                else remove_slot b k freePosition)
      in (Inr (Some (memory_addr b + sizeof_Element * (freePosition + 1))),
          set_status b1 freePosition 0))"

definition slotSize :: "MemoryBlock \<Rightarrow> nat \<Rightarrow> nat" where
  "slotSize b freePosition =
     size_t_mul sizeof_Element (size_t_sub (slot_next b freePosition) 1)"

text \<open>
  The \<^verbatim>\<open>while (freePosition != 0)\<close> loop over one free list.  Nothing bounds the walk
  when the chain of \<^verbatim>\<open>next free\<close> cells is cyclic, so the loop is a partial function:
  \<open>None\<close> is "does not return", \<open>Some None\<close> is "chain exhausted, go on with the next
  free list", \<open>Some (Some (r, b'))\<close> is a throw (\<open>r = Inl e\<close>) or a return
  (\<open>r = Inr p\<close>, with \<open>p = None\<close> for \<^verbatim>\<open>nullptr\<close>) and the block at that moment.
\<close>

partial_function (option) walk_freeList ::
  "MemoryBlock \<Rightarrow> nat \<Rightarrow> nat \<Rightarrow> nat \<Rightarrow> ((error + nat option) \<times> MemoryBlock) option option"
where
  "walk_freeList b k sz freePosition =
     (if freePosition = 0 then Some None
      else if slot_status b freePosition \<noteq> 1 then Some (Some (Inl AllocatedSlotInFreeList, b))
      else if sz \<le> slotSize b freePosition then Some (Some (use_slot b k sz freePosition))
      else walk_freeList b k sz (cell_index b (freePosition + 2)))"

declare walk_freeList.simps [code]

text \<open>The \<^verbatim>\<open>for (auto& freeList : freeLists)\<close> loop, from free list number \<open>k\<close> on.\<close>

fun allocate_freeLists ::
  "MemoryBlock \<Rightarrow> nat \<Rightarrow> nat \<Rightarrow> FreeList list \<Rightarrow> ((error + nat option) \<times> MemoryBlock) option"
where
  "allocate_freeLists b sz k [] = Some (Inr None, b)"
| "allocate_freeLists b sz k (freeList # rest) =
     (if count freeList = 0 then allocate_freeLists b sz (Suc k) rest
      else (case walk_freeList b k sz (head freeList) of
              None \<Rightarrow> None
            | Some (Some r) \<Rightarrow> Some r
            | Some None \<Rightarrow> allocate_freeLists b sz (Suc k) rest))"

definition MemoryBlock_allocate ::
  "MemoryBlock \<Rightarrow> nat \<Rightarrow> ((error + nat option) \<times> MemoryBlock) option"
where
  "MemoryBlock_allocate b sz =
     (if sz > maximumAllocationSize b then Some (Inr None, b)
      else allocate_freeLists b sz 0 (freeLists b))"

subsection \<open>deallocate\<close>

text \<open>
  The four lambdas of \<^verbatim>\<open>deallocate\<close>.  They capture the neighbour positions by
  reference; here these are arguments.  \<^verbatim>\<open>freeList\<close> is \<^verbatim>\<open>freeLists.front()\<close>, free
  list number 0.
\<close>

definition mergePCN ::
  "MemoryBlock \<Rightarrow> nat \<Rightarrow> nat \<Rightarrow> nat \<Rightarrow> nat \<Rightarrow> nat \<Rightarrow> nat \<Rightarrow> nat \<Rightarrow> nat \<Rightarrow> MemoryBlock"
where
  "mergePCN b P C N NN PPF PNF NPF NNF =
     (let b1 = set_next b P (slot_next b P + (slot_next b C + slot_next b N));
          b2 = (if NN \<noteq> 0 then set_previous b1 NN (slot_next b1 P) else b1);
          b3 = (if PNF = N then
                  (let c1 = set_index b2 (Index (P + 2)) NNF
                   in if NNF \<noteq> 0 then set_index c1 (Index (NNF + 1)) P else c1)
                else if PPF = N then
                  (if head (freeList_at b2 0) = N
                   then set_index (set_head b2 0 P) (Index (P + 1)) 0
                   else (let c1 = set_index b2 (Index (P + 1)) NPF
                         in if NPF \<noteq> 0 then set_index c1 (Index (NPF + 2)) P else c1))
                else
                  (let c1 = (if NPF \<noteq> 0 then set_index b2 (Index (NPF + 2)) NNF else b2);
                       c2 = (if NNF \<noteq> 0 then set_index c1 (Index (NNF + 1)) NPF else c1)
                   in if head (freeList_at c2 0) = N then set_head c2 0 NNF else c2))
      in set_count b3 0 (decrement (count (freeList_at b3 0))))"

definition mergePC :: "MemoryBlock \<Rightarrow> nat \<Rightarrow> nat \<Rightarrow> nat \<Rightarrow> MemoryBlock" where
  "mergePC b P C N =
     (let b1 = set_next b P (slot_next b P + slot_next b C)
      in if N \<noteq> 0 then set_previous b1 N (slot_next b1 P) else b1)"

definition mergeCN ::
  "MemoryBlock \<Rightarrow> nat \<Rightarrow> nat \<Rightarrow> nat \<Rightarrow> nat \<Rightarrow> nat \<Rightarrow> MemoryBlock"
where
  "mergeCN b C N NN NPF NNF =
     (let b1 = set_status b C 1;
          b2 = set_next b1 C (slot_next b1 C + slot_next b1 N);
          b3 = (if NN \<noteq> 0 then set_previous b2 NN (slot_next b2 C) else b2);
          b4 = (if NPF \<noteq> 0 then set_index b3 (Index (NPF + 2)) C else b3);
          b5 = (if NNF \<noteq> 0 then set_index b4 (Index (NNF + 1)) C else b4);
          b6 = set_index b5 (Index (C + 1)) NPF;
          b7 = set_index b6 (Index (C + 2)) NNF
      in if head (freeList_at b7 0) = N then set_head b7 0 C else b7)"

definition standalone :: "MemoryBlock \<Rightarrow> nat \<Rightarrow> MemoryBlock" where
  "standalone b C =
     (let b1 = set_status b C 1;
          b2 = set_index b1 (Index (C + 1)) 0;
          b3 = set_index b2 (Index (C + 2)) (head (freeList_at b2 0));
          b4 = (if head (freeList_at b3 0) \<noteq> 0
                then set_index b3 (head (freeList_at b3 0) + 1) C else b3);
          b5 = set_head b4 0 C
      in set_count b5 0 (count (freeList_at b5 0) + 1))"

text \<open>The locals of \<^verbatim>\<open>deallocate\<close>, each as a function of the block and the pointer.\<close>

definition dealloc_C :: "MemoryBlock \<Rightarrow> nat \<Rightarrow> nat" where
  "dealloc_C b ptr = Index_sub (Index ((ptr - memory_addr b) div sizeof_Element)) 1"

definition dealloc_P :: "MemoryBlock \<Rightarrow> nat \<Rightarrow> nat" where
  "dealloc_P b C = (if slot_previous b C > 0 then Index_sub C (slot_previous b C) else 0)"

definition dealloc_N :: "MemoryBlock \<Rightarrow> nat \<Rightarrow> nat" where
  "dealloc_N b C = (let N = Index (C + slot_next b C) in if N \<ge> capacity b then 0 else N)"

definition dealloc_NN :: "MemoryBlock \<Rightarrow> nat \<Rightarrow> nat" where
  "dealloc_NN b N =
     (if N \<noteq> 0
      then (let NN = Index (N + slot_next b N) in if NN \<ge> capacity b then 0 else NN)
      else 0)"

definition dealloc_PPF :: "MemoryBlock \<Rightarrow> nat \<Rightarrow> nat" where
  "dealloc_PPF b P =
     (if P \<noteq> 0 \<and> slot_status b P \<noteq> 0 then cell_index b (Index (P + 1)) else 0)"

definition dealloc_PNF :: "MemoryBlock \<Rightarrow> nat \<Rightarrow> nat" where
  "dealloc_PNF b P =
     (if P \<noteq> 0 \<and> slot_status b P \<noteq> 0 then cell_index b (Index (P + 2)) else 0)"

definition dealloc_NPF :: "MemoryBlock \<Rightarrow> nat \<Rightarrow> nat" where
  "dealloc_NPF b N =
     (if N \<noteq> 0 \<and> slot_status b N \<noteq> 0 then cell_index b (Index (N + 1)) else 0)"

definition dealloc_NNF :: "MemoryBlock \<Rightarrow> nat \<Rightarrow> nat" where
  "dealloc_NNF b N =
     (if N \<noteq> 0 \<and> slot_status b N \<noteq> 0 then cell_index b (Index (N + 2)) else 0)"

definition maxSize :: "MemoryBlock \<Rightarrow> nat" where
  "maxSize b = 1 + maximumAllocationSize b div sizeof_Element"

text \<open>The final \<^verbatim>\<open>if\<close> cascade of \<^verbatim>\<open>deallocate\<close>, which picks one of the lambdas.\<close>

definition dealloc_merge :: "MemoryBlock \<Rightarrow> nat \<Rightarrow> MemoryBlock" where
  "dealloc_merge b C =
     (let P = dealloc_P b C; N = dealloc_N b C; NN = dealloc_NN b N;
          PPF = dealloc_PPF b P; PNF = dealloc_PNF b P;
          NPF = dealloc_NPF b N; NNF = dealloc_NNF b N
      in if P \<noteq> 0 \<and> slot_status b P \<noteq> 0 then
           (if N \<noteq> 0 \<and> slot_status b N \<noteq> 0 then
              (if slot_next b P + slot_next b C + slot_next b N \<le> maxSize b
               then mergePCN b P C N NN PPF PNF NPF NNF
               else if slot_next b P + slot_next b C \<le> maxSize b then mergePC b P C N
               else if slot_next b C + slot_next b N \<le> maxSize b
               then mergeCN b C N NN NPF NNF
               else standalone b C)
            else if slot_next b P + slot_next b C \<le> maxSize b then mergePC b P C N
            else standalone b C)
         else if N \<noteq> 0 \<and> slot_status b N \<noteq> 0 then
           (if slot_next b C + slot_next b N \<le> maxSize b then mergeCN b C N NN NPF NNF
            else standalone b C)
         else standalone b C)"

text \<open>
  \<^verbatim>\<open>deallocate(ptr, size)\<close>: the result pairs the outcome, a throw (\<open>Inl\<close>) or the
  returned boolean (\<open>Inr\<close>), with the block at that moment.  \<^verbatim>\<open>freeLists.front()\<close>
  of an empty vector has no defined behaviour in the source and is the error
  \<open>NoFreeList\<close>; the constructor puts one free list into every block.
\<close>

definition MemoryBlock_deallocate ::
  "MemoryBlock \<Rightarrow> nat \<Rightarrow> nat \<Rightarrow> (error + bool) \<times> MemoryBlock"
where
  "MemoryBlock_deallocate b ptr sz =
     (if within b ptr then
        (if freeLists b = [] then (Inl NoFreeList, b)
         else let C = dealloc_C b ptr in
           if slot_next b C = 0 then (Inl SlotNextZero, b)
           else if slot_status b C \<noteq> 0 then (Inl AlreadyAvailableSlot, b)
           else (Inr True, dealloc_merge b C))
      else (Inr False, b))"

subsection \<open>The constructor\<close>

text \<open>
  \<^verbatim>\<open>computeMaxiumAllocationSize\<close> is defined in the missing header; the constructors take
  it as the parameter \<open>cmas\<close>.  The address and the uninitialised contents of the buffer
  that \<^verbatim>\<open>operator new\<close> returns are the parameters \<open>addr\<close> and \<open>raw\<close>.
\<close>

definition alignof_max_align_t :: nat where
  "alignof_max_align_t = 16"

definition max_slot_size :: nat where
  "max_slot_size = 2 ^ 15"

text \<open>
  The loop \<^verbatim>\<open>for(; position < capacity;)\<close> that carves the buffer into free slots.  Its
  position need not advance (see \<open>carve_stuck\<close> below), so it is a partial function.
\<close>

partial_function (option) carve ::
  "nat \<Rightarrow> nat \<Rightarrow> (nat \<Rightarrow> Element) \<Rightarrow> nat \<Rightarrow> nat \<Rightarrow> nat \<Rightarrow> ((nat \<Rightarrow> Element) \<times> nat) option"
where
  "carve ea cap mem previous_position position cnt =
     (if position < cap then
        (let aligned_start = ((position + max_slot_size) div ea) * ea;
             next_position = min (size_t_sub aligned_start 1) cap;
             mem1 = mem(position :=
                      Element_slot
                        (if previous_position = 0 then 0
                         else size_t_sub position previous_position)
                        (size_t_sub next_position position) 1);
             mem2 = mem1(position + 1 := Element_index previous_position);
             mem3 = mem2(position + 2 :=
                      Element_index (if next_position < cap then next_position else 0))
         in carve ea cap mem3 position next_position (cnt + 1))
      else Some (mem, cnt))"

declare carve.simps [code]

definition first_head :: "nat \<Rightarrow> nat" where
  "first_head ea = ((1 + ea) div ea) * ea - 1"

definition MemoryBlock_new ::
  "(nat \<Rightarrow> nat \<Rightarrow> nat) \<Rightarrow> nat \<Rightarrow> (nat \<Rightarrow> Element) \<Rightarrow> nat \<Rightarrow> nat \<Rightarrow> MemoryBlock option"
where
  "MemoryBlock_new cmas addr raw in_blockSize in_alignment =
     (let al = max in_alignment sizeof_Element;
          ea = al div sizeof_Element;
          bal = max (max al alignof_max_align_t) 16;
          bs = (((in_blockSize + al - 1) mod 2 ^ 64) div al) * al;
          cap = bs div al
      in case carve ea cap (raw(0 := Element_index 0)) 0 (first_head ea) 0 of
           None \<Rightarrow> None
         | Some (mem, cnt) \<Rightarrow>
             Some \<lparr>memory = mem, memory_addr = addr,
                   memoryEnd = addr + sizeof_Element * (bs div sizeof_Element),
                   alignment = al, blockAlignment = bal, blockSize = bs,
                   elementAlignment = ea, capacity = cap,
                   maximumAllocationSize = cmas bs al,
                   freeLists = [\<lparr>count = cnt, head = first_head ea\<rparr>]\<rparr>)"

text \<open>
  A chain of \<open>n\<close> free slots in a buffer: it starts at position \<open>p\<close>, every slot is
  marked free, starts one element before an aligned position and spans a positive number
  of elements that its \<^verbatim>\<open>next\<close> offset holds, and the last one ends at the capacity.
  With no slot at all, \<open>p\<close> is at or beyond the capacity.
\<close>

fun mem_chain :: "(nat \<Rightarrow> Element) \<Rightarrow> nat \<Rightarrow> nat \<Rightarrow> nat \<Rightarrow> nat \<Rightarrow> bool" where
  "mem_chain mem ea cap p 0 \<longleftrightarrow> cap \<le> p"
| "mem_chain mem ea cap p (Suc n) \<longleftrightarrow>
     p < cap \<and> unat (status (mem p)) = 1 \<and> 0 < unat (nxt (mem p))
     \<and> (p + 1) mod ea = 0 \<and> p + unat (nxt (mem p)) \<le> cap
     \<and> mem_chain mem ea cap (p + unat (nxt (mem p))) n"


section \<open>The system allocator and std::map\<close>

text \<open>
  \<^verbatim>\<open>operator new\<close> is outside the program.  Its answers are an oracle: the address
  returned by the \<open>n\<close>-th call (\<open>None\<close> when the call throws \<^verbatim>\<open>std::bad_alloc\<close>,
  address 0 for a null pointer) and the uninitialised contents found there.  The
  allocators count their calls in a ghost field.
\<close>

record sys_alloc =
  operator_new :: "nat \<Rightarrow> nat option"
  raw_memory :: "nat \<Rightarrow> nat \<Rightarrow> Element"

text \<open>
  A \<^verbatim>\<open>std::map\<close> keyed by pointers is an association list in ascending key order:
  \<open>map_assign\<close> is \<^verbatim>\<open>m[k] = v\<close>, \<open>upper_bound\<close> gives the entries from the iterator
  \<^verbatim>\<open>m.upper_bound(k)\<close> on, \<open>before_upper_bound\<close> those in front of it.
\<close>

fun map_assign :: "nat \<Rightarrow> 'v \<Rightarrow> (nat \<times> 'v) list \<Rightarrow> (nat \<times> 'v) list" where
  "map_assign k v [] = [(k, v)]"
| "map_assign k v ((k', v') # m) =
     (if k < k' then (k, v) # (k', v') # m
      else if k = k' then (k, v) # m
      else (k', v') # map_assign k v m)"

definition map_erase :: "nat \<Rightarrow> (nat \<times> 'v) list \<Rightarrow> (nat \<times> 'v) list" where
  "map_erase k m = filter (\<lambda>(k', v). k' \<noteq> k) m"

definition upper_bound :: "nat \<Rightarrow> (nat \<times> 'v) list \<Rightarrow> (nat \<times> 'v) list" where
  "upper_bound k m = dropWhile (\<lambda>(k', v). k' \<le> k) m"

definition before_upper_bound :: "nat \<Rightarrow> (nat \<times> 'v) list \<Rightarrow> (nat \<times> 'v) list" where
  "before_upper_bound k m = takeWhile (\<lambda>(k', v). k' \<le> k) m"

definition resize :: "'a option list \<Rightarrow> nat \<Rightarrow> 'a option list" where
  "resize v n = take n v @ replicate (n - length v) None"

section \<open>IntrusiveAllocator::MemoryBlocks and IntrusiveAllocator\<close>

text \<open>
  A pool shares its blocks with the allocator's map \<^verbatim>\<open>memoryBlocks\<close> through
  \<^verbatim>\<open>shared_ptr\<close>.  The map, keyed by the block's buffer address, is the one store of
  blocks here; the pool's vector and \<^verbatim>\<open>memoryBlockWithSpace\<close> hold addresses.  Every pool
  of an \<^verbatim>\<open>IntrusiveAllocator\<close> is constructed with \<^verbatim>\<open>parent = this\<close>, so every block it
  creates is entered in the map.  A nested allocator is represented by the answer of its
  \<^verbatim>\<open>deallocate\<close>.
\<close>

record MemoryBlocks =
  blocks_alignment :: nat
  blocks_blockSize :: nat
  blocks_maximumAllocationSize :: nat
  blocks_memoryBlocks :: "nat list"
  memoryBlockWithSpace :: "nat option"

record IntrusiveAllocator =
  allocatorMemoryBlocks :: "MemoryBlocks option list"
  memoryBlocks :: "(nat \<times> MemoryBlock) list"
  largeAllocations :: "(nat \<times> nat) list"
  default_alignment :: nat
  nestedAllocator :: "(nat \<Rightarrow> nat \<Rightarrow> bool) option"
  news :: nat

definition MemoryBlocks_new :: "(nat \<Rightarrow> nat \<Rightarrow> nat) \<Rightarrow> nat \<Rightarrow> nat \<Rightarrow> MemoryBlocks" where
  "MemoryBlocks_new cmas in_blockSize in_alignment =
     \<lparr>blocks_alignment = in_alignment, blocks_blockSize = in_blockSize,
      blocks_maximumAllocationSize = cmas in_blockSize in_alignment,
      blocks_memoryBlocks = [], memoryBlockWithSpace = None\<rparr>"

definition Megabyte :: nat where
  "Megabyte = 1024 * 1024"

definition ALLOCATOR_AFFINITY_LAST :: nat where
  "ALLOCATOR_AFFINITY_LAST = 4"

definition IntrusiveAllocator_new ::
  "(nat \<Rightarrow> nat \<Rightarrow> nat) \<Rightarrow> (nat \<Rightarrow> nat \<Rightarrow> bool) option \<Rightarrow> IntrusiveAllocator"
where
  "IntrusiveAllocator_new cmas in_nestedAllocator =
     \<lparr>allocatorMemoryBlocks =
        (resize [] ALLOCATOR_AFFINITY_LAST)
          [0 := Some (MemoryBlocks_new cmas Megabyte 4),
           1 := Some (MemoryBlocks_new cmas (16 * Megabyte) 4),
           2 := Some (MemoryBlocks_new cmas Megabyte 4),
           3 := Some (MemoryBlocks_new cmas Megabyte 16)],
      memoryBlocks = [], largeAllocations = [], default_alignment = 4,
      nestedAllocator = in_nestedAllocator, news = 0\<rparr>"

text \<open>\<^verbatim>\<open>block->allocate(size)\<close> on the block stored at address \<open>addr\<close>.\<close>

definition block_allocate ::
  "(nat \<times> MemoryBlock) list \<Rightarrow> nat \<Rightarrow> nat
     \<Rightarrow> ((error + nat option) \<times> (nat \<times> MemoryBlock) list) option"
where
  "block_allocate m addr sz =
     (case map_of m addr of
        None \<Rightarrow> Some (Inl DanglingBlock, m)
      | Some b \<Rightarrow>
          (case MemoryBlock_allocate b sz of
             None \<Rightarrow> None
           | Some (r, b') \<Rightarrow> Some (r, map_assign addr b' m)))"

text \<open>The loop \<^verbatim>\<open>for (auto& block : memoryBlocks)\<close> of \<^verbatim>\<open>MemoryBlocks::allocate\<close>.\<close>

fun blocks_allocate ::
  "(nat \<times> MemoryBlock) list \<Rightarrow> nat option \<Rightarrow> nat list \<Rightarrow> nat
     \<Rightarrow> ((error + nat option) \<times> (nat \<times> MemoryBlock) list) option"
where
  "blocks_allocate m withSpace [] sz = Some (Inr None, m)"
| "blocks_allocate m withSpace (addr # rest) sz =
     (if Some addr \<noteq> withSpace then
        (case block_allocate m addr sz of
           None \<Rightarrow> None
         | Some (Inr None, m') \<Rightarrow> blocks_allocate m' withSpace rest sz
         | Some r \<Rightarrow> Some r)
      else blocks_allocate m withSpace rest sz)"

definition set_pool :: "IntrusiveAllocator \<Rightarrow> nat \<Rightarrow> MemoryBlocks \<Rightarrow> IntrusiveAllocator" where
  "set_pool a affinity pool =
     a\<lparr>allocatorMemoryBlocks := (allocatorMemoryBlocks a)[affinity := Some pool]\<rparr>"

text \<open>The tail of \<^verbatim>\<open>MemoryBlocks::allocate\<close>: a new block, registered and allocated from.\<close>

definition new_block_allocate ::
  "(nat \<Rightarrow> nat \<Rightarrow> nat) \<Rightarrow> sys_alloc \<Rightarrow> IntrusiveAllocator \<Rightarrow> nat \<Rightarrow> MemoryBlocks \<Rightarrow> nat
     \<Rightarrow> ((error + nat option) \<times> IntrusiveAllocator) option"
where
  "new_block_allocate cmas sys a affinity pool sz =
     (let new_blockSize = max sz (blocks_blockSize pool) in
      case operator_new sys (news a) of
        None \<Rightarrow> Some (Inl BadAlloc, a)
      | Some addr \<Rightarrow>
          (case MemoryBlock_new cmas addr (raw_memory sys (news a)) new_blockSize
                  (blocks_alignment pool) of
             None \<Rightarrow> None
           | Some new_block \<Rightarrow>
               (let pool' = pool
                      \<lparr>blocks_maximumAllocationSize :=
                         (if blocks_memoryBlocks pool = [] then maximumAllocationSize new_block
                          else blocks_maximumAllocationSize pool),
                       memoryBlockWithSpace := Some addr,
                       blocks_memoryBlocks := blocks_memoryBlocks pool @ [addr]\<rparr>;
                    a' = set_pool
                           (a\<lparr>memoryBlocks := map_assign addr new_block (memoryBlocks a),
                              news := news a + 1\<rparr>) affinity pool'
                in case block_allocate (memoryBlocks a') addr sz of
                     None \<Rightarrow> None
                   | Some (r, m') \<Rightarrow> Some (r, a'\<lparr>memoryBlocks := m'\<rparr>))))"

definition MemoryBlocks_allocate ::
  "(nat \<Rightarrow> nat \<Rightarrow> nat) \<Rightarrow> sys_alloc \<Rightarrow> IntrusiveAllocator \<Rightarrow> nat \<Rightarrow> MemoryBlocks \<Rightarrow> nat
     \<Rightarrow> ((error + nat option) \<times> IntrusiveAllocator) option"
where
  "MemoryBlocks_allocate cmas sys a affinity pool sz =
     (case (case memoryBlockWithSpace pool of
              None \<Rightarrow> Some (Inr None, memoryBlocks a)
            | Some addr \<Rightarrow> block_allocate (memoryBlocks a) addr sz) of
        None \<Rightarrow> None
      | Some (Inr None, m1) \<Rightarrow>
          (case blocks_allocate m1 (memoryBlockWithSpace pool) (blocks_memoryBlocks pool) sz of
             None \<Rightarrow> None
           | Some (Inr None, m2) \<Rightarrow>
               new_block_allocate cmas sys (a\<lparr>memoryBlocks := m2\<rparr>) affinity pool sz
           | Some (r, m2) \<Rightarrow> Some (r, a\<lparr>memoryBlocks := m2\<rparr>))
      | Some (r, m1) \<Rightarrow> Some (r, a\<lparr>memoryBlocks := m1\<rparr>))"

text \<open>
  The two places of \<^verbatim>\<open>IntrusiveAllocator::allocate\<close> that call \<^verbatim>\<open>operator new\<close> and
  record the pointer in \<^verbatim>\<open>largeAllocations\<close>.
\<close>

definition large_allocation ::
  "sys_alloc \<Rightarrow> IntrusiveAllocator \<Rightarrow> nat \<Rightarrow> ((error + nat option) \<times> IntrusiveAllocator) option"
where
  "large_allocation sys a sz =
     (case operator_new sys (news a) of
        None \<Rightarrow> Some (Inl BadAlloc, a)
      | Some ptr \<Rightarrow>
          (if ptr \<noteq> 0
           then Some (Inr (Some ptr),
                  a\<lparr>largeAllocations := map_assign ptr sz (largeAllocations a),
                    news := news a + 1\<rparr>)
           else Some (Inr None, a\<lparr>news := news a + 1\<rparr>)))"

text \<open>
  \<^verbatim>\<open>IntrusiveAllocator::allocate\<close>.  The subscript \<^verbatim>\<open>allocatorMemoryBlocks[allocatorAffinity]\<close>
  beyond the end of the vector has no defined behaviour and is the error \<open>OutOfRange\<close>.
\<close>

definition IntrusiveAllocator_allocate ::
  "(nat \<Rightarrow> nat \<Rightarrow> nat) \<Rightarrow> sys_alloc \<Rightarrow> IntrusiveAllocator \<Rightarrow> nat \<Rightarrow> nat
     \<Rightarrow> ((error + nat option) \<times> IntrusiveAllocator) option"
where
  "IntrusiveAllocator_allocate cmas sys a sz allocatorAffinity =
     (let a1 = (if allocatorAffinity > length (allocatorMemoryBlocks a)
                then a\<lparr>allocatorMemoryBlocks :=
                        (resize (allocatorMemoryBlocks a) (allocatorAffinity + 1))
                          [allocatorAffinity :=
                             Some (MemoryBlocks_new cmas (1024 * 1024) (default_alignment a))]\<rparr>
                else a)
      in if allocatorAffinity \<ge> length (allocatorMemoryBlocks a1) then Some (Inl OutOfRange, a1)
         else (case allocatorMemoryBlocks a1 ! allocatorAffinity of
                 Some blocks \<Rightarrow>
                   (if sz \<le> blocks_maximumAllocationSize blocks then
                      (case MemoryBlocks_allocate cmas sys a1 allocatorAffinity blocks sz of
                         None \<Rightarrow> None
                       | Some (Inr None, a2) \<Rightarrow> large_allocation sys a2 sz
                       | Some r \<Rightarrow> Some r)
                    else large_allocation sys a1 sz)
               | None \<Rightarrow> large_allocation sys a1 sz))"

text \<open>
  The block that \<^verbatim>\<open>IntrusiveAllocator::deallocate\<close> picks from a non-empty map: the one
  in front of \<^verbatim>\<open>upper_bound(ptr)\<close>, the first one when the iterator is \<^verbatim>\<open>begin()\<close>, the
  last one when it is \<^verbatim>\<open>end()\<close>.
\<close>

definition candidate_block :: "(nat \<times> 'v) list \<Rightarrow> nat \<Rightarrow> nat \<times> 'v" where
  "candidate_block m ptr =
     (if upper_bound ptr m \<noteq> [] then
        (if before_upper_bound ptr m \<noteq> [] then last (before_upper_bound ptr m)
         else hd (upper_bound ptr m))
      else last m)"

definition IntrusiveAllocator_deallocate ::
  "IntrusiveAllocator \<Rightarrow> nat \<Rightarrow> nat \<Rightarrow> (error + bool) \<times> IntrusiveAllocator"
where
  "IntrusiveAllocator_deallocate a ptr sz =
     (if memoryBlocks a = [] then (Inr False, a)
      else (case candidate_block (memoryBlocks a) ptr of (addr, block) \<Rightarrow>
        (case MemoryBlock_deallocate block ptr sz of
           (Inl e, block') \<Rightarrow> (Inl e, a\<lparr>memoryBlocks := map_assign addr block' (memoryBlocks a)\<rparr>)
         | (Inr True, block') \<Rightarrow>
             (Inr True, a\<lparr>memoryBlocks := map_assign addr block' (memoryBlocks a)\<rparr>)
         | (Inr False, block') \<Rightarrow>
             (if map_of (largeAllocations a) ptr \<noteq> None
              then (Inr True, a\<lparr>largeAllocations := map_erase ptr (largeAllocations a)\<rparr>)
              else if (case nestedAllocator a of None \<Rightarrow> False | Some nested \<Rightarrow> nested ptr sz)
              then (Inr True, a)
              else (Inr False, a)))))"

definition IntrusiveAllocator_totalReservedSize :: "IntrusiveAllocator \<Rightarrow> nat" where
  "IntrusiveAllocator_totalReservedSize a = 0"

section \<open>OriginalBlockAllocator\<close>

text \<open>
  The segregated allocator keeps its reservations in \<^verbatim>\<open>MemorySlots\<close>, a class that is not
  among the sources.  Its state is the type parameter \<open>'ms\<close>, and its constructor and
  \<^verbatim>\<open>reserve\<close> are parameters: \<open>reserve ops ms size alignment\<close> gives the pair
  \<^verbatim>\<open>(allocated, offset)\<close> and the slots afterwards.  Blocks are shared between the
  pool's map and \<^verbatim>\<open>latestMemoryBlock\<close>; the map is the store and
  \<^verbatim>\<open>latestMemoryBlock\<close> holds the key.
\<close>

record 'ms MemorySlots_ops =
  MemorySlots_new :: "nat \<Rightarrow> 'ms"
  reserve :: "'ms \<Rightarrow> nat \<Rightarrow> nat \<Rightarrow> (bool \<times> nat) \<times> 'ms"

record 'ms Original_MemoryBlock =
  o_memorySlots :: 'ms
  o_alignment :: nat
  o_block_alignment :: nat
  o_memory :: nat

record 'ms Original_MemoryBlocks =
  o_blocks_blockSize :: nat
  o_blocks_alignment :: nat
  o_memoryBlocks :: "(nat \<times> 'ms Original_MemoryBlock) list"
  latestMemoryBlock :: "nat option"

record 'ms OriginalBlockAllocator =
  o_allocatorMemoryBlocks :: "'ms Original_MemoryBlocks option list"
  o_default_alignment :: nat
  o_news :: nat

definition Original_MemoryBlocks_new :: "nat \<Rightarrow> nat \<Rightarrow> 'ms Original_MemoryBlocks" where
  "Original_MemoryBlocks_new in_blockSize in_alignment =
     \<lparr>o_blocks_blockSize = in_blockSize, o_blocks_alignment = in_alignment,
      o_memoryBlocks = [], latestMemoryBlock = None\<rparr>"

definition OriginalBlockAllocator_new :: "nat \<Rightarrow> 'ms OriginalBlockAllocator" where
  "OriginalBlockAllocator_new in_default_alignment =
     \<lparr>o_allocatorMemoryBlocks =
        (resize [] ALLOCATOR_AFFINITY_LAST)
          [0 := Some (Original_MemoryBlocks_new Megabyte in_default_alignment),
           1 := Some (Original_MemoryBlocks_new (16 * Megabyte) in_default_alignment),
           2 := Some (Original_MemoryBlocks_new Megabyte in_default_alignment),
           3 := Some (Original_MemoryBlocks_new Megabyte 16)],
      o_default_alignment = in_default_alignment, o_news = 0\<rparr>"

text \<open>
  \<^verbatim>\<open>OriginalBlockAllocator::setBlockSize\<close>.  Below the vector's size it writes through
  the entry, which must not be null; at or above it the vector grows to
  \<^verbatim>\<open>allocatorAffinity + 1\<close> entries, the new ones in between being null.
\<close>

definition OriginalBlockAllocator_setBlockSize ::
  "'ms OriginalBlockAllocator \<Rightarrow> nat \<Rightarrow> nat \<Rightarrow> error + 'ms OriginalBlockAllocator"
where
  "OriginalBlockAllocator_setBlockSize a allocatorAffinity in_blockSize =
     (if allocatorAffinity < length (o_allocatorMemoryBlocks a) then
        (case o_allocatorMemoryBlocks a ! allocatorAffinity of
           None \<Rightarrow> Inl OutOfRange
         | Some pool \<Rightarrow>
             Inr (a\<lparr>o_allocatorMemoryBlocks :=
                      (o_allocatorMemoryBlocks a)
                        [allocatorAffinity := Some (pool\<lparr>o_blocks_blockSize := in_blockSize\<rparr>)]\<rparr>))
      else
        Inr (a\<lparr>o_allocatorMemoryBlocks :=
                 (resize (o_allocatorMemoryBlocks a) (allocatorAffinity + 1))
                   [allocatorAffinity :=
                      Some (Original_MemoryBlocks_new in_blockSize (o_default_alignment a))]\<rparr>))"

definition Original_MemoryBlock_allocate ::
  "'ms MemorySlots_ops \<Rightarrow> 'ms Original_MemoryBlock \<Rightarrow> nat
     \<Rightarrow> nat option \<times> 'ms Original_MemoryBlock"
where
  "Original_MemoryBlock_allocate ops blk sz =
     (case reserve ops (o_memorySlots blk) sz (o_alignment blk) of
        ((allocated, offset), ms') \<Rightarrow>
          (if allocated then Some (o_memory blk + offset) else None,
           blk\<lparr>o_memorySlots := ms'\<rparr>))"

text \<open>
  The search of \<^verbatim>\<open>OriginalBlockAllocator::MemoryBlocks::allocate\<close> "from last to first"
  over the blocks other than \<^verbatim>\<open>latestMemoryBlock\<close>; the argument is the reversed map.
\<close>

fun Original_blocks_allocate ::
  "'ms MemorySlots_ops \<Rightarrow> (nat \<times> 'ms Original_MemoryBlock) list \<Rightarrow> nat option
     \<Rightarrow> (nat \<times> 'ms Original_MemoryBlock) list \<Rightarrow> nat
     \<Rightarrow> nat option \<times> (nat \<times> 'ms Original_MemoryBlock) list"
where
  "Original_blocks_allocate ops m latest [] sz = (None, m)"
| "Original_blocks_allocate ops m latest ((addr, blk) # rest) sz =
     (if Some addr \<noteq> latest then
        (case Original_MemoryBlock_allocate ops blk sz of
           (Some ptr, blk') \<Rightarrow> (Some ptr, map_assign addr blk' m)
         | (None, blk') \<Rightarrow> Original_blocks_allocate ops (map_assign addr blk' m) latest rest sz)
      else Original_blocks_allocate ops m latest rest sz)"

definition Original_MemoryBlocks_allocate ::
  "'ms MemorySlots_ops \<Rightarrow> sys_alloc \<Rightarrow> nat \<Rightarrow> 'ms Original_MemoryBlocks \<Rightarrow> nat
     \<Rightarrow> (error + nat option) \<times> 'ms Original_MemoryBlocks \<times> nat"
where
  "Original_MemoryBlocks_allocate ops sys n pool sz =
     (case (case latestMemoryBlock pool of
              None \<Rightarrow> (None, o_memoryBlocks pool)
            | Some addr \<Rightarrow>
                (case map_of (o_memoryBlocks pool) addr of
                   None \<Rightarrow> (None, o_memoryBlocks pool)
                 | Some blk \<Rightarrow>
                     (case Original_MemoryBlock_allocate ops blk sz of
                        (r, blk') \<Rightarrow> (r, map_assign addr blk' (o_memoryBlocks pool))))) of
        (Some ptr, m1) \<Rightarrow> (Inr (Some ptr), pool\<lparr>o_memoryBlocks := m1\<rparr>, n)
      | (None, m1) \<Rightarrow>
          (case Original_blocks_allocate ops m1 (latestMemoryBlock pool) (rev m1) sz of
             (Some ptr, m2) \<Rightarrow> (Inr (Some ptr), pool\<lparr>o_memoryBlocks := m2\<rparr>, n)
           | (None, m2) \<Rightarrow>
               (let new_blockSize = max sz (o_blocks_blockSize pool) in
                case operator_new sys n of
                  None \<Rightarrow> (Inl BadAlloc, pool\<lparr>o_memoryBlocks := m2\<rparr>, n)
                | Some addr \<Rightarrow>
                    (let al = o_blocks_alignment pool;
                         blk = \<lparr>o_memorySlots = MemorySlots_new ops new_blockSize,
                                o_alignment = al,
                                o_block_alignment = max (max al alignof_max_align_t) 16,
                                o_memory = addr\<rparr>
                     in case Original_MemoryBlock_allocate ops blk sz of
                          (r, blk') \<Rightarrow>
                            (Inr r,
                             pool\<lparr>o_memoryBlocks := map_assign addr blk' m2,
                                  latestMemoryBlock := Some addr\<rparr>,
                             n + 1)))))"

text \<open>
  \<^verbatim>\<open>OriginalBlockAllocator::allocate\<close>.  When the entry is null or the pool returns a
  null pointer, the function calls itself with the same arguments (line 133 of the
  source); whether that ever returns is what the partial function records: \<open>None\<close> is
  "does not return".
\<close>

partial_function (option) OriginalBlockAllocator_allocate ::
  "'ms MemorySlots_ops \<Rightarrow> sys_alloc \<Rightarrow> 'ms OriginalBlockAllocator \<Rightarrow> nat \<Rightarrow> nat
     \<Rightarrow> ((error + nat option) \<times> 'ms OriginalBlockAllocator) option"
where
  "OriginalBlockAllocator_allocate ops sys a sz allocatorAffinity =
     (let a1 = (if allocatorAffinity > length (o_allocatorMemoryBlocks a)
                then a\<lparr>o_allocatorMemoryBlocks :=
                        (resize (o_allocatorMemoryBlocks a) (allocatorAffinity + 1))
                          [allocatorAffinity :=
                             Some (Original_MemoryBlocks_new (1024 * 1024)
                                     (o_default_alignment a))]\<rparr>
                else a)
      in if allocatorAffinity \<ge> length (o_allocatorMemoryBlocks a1)
         then Some (Inl OutOfRange, a1)
         else (case o_allocatorMemoryBlocks a1 ! allocatorAffinity of
                 None \<Rightarrow> OriginalBlockAllocator_allocate ops sys a1 sz allocatorAffinity
               | Some pool \<Rightarrow>
                   (case Original_MemoryBlocks_allocate ops sys (o_news a1) pool sz of
                      (Inl e, pool', n') \<Rightarrow>
                        Some (Inl e,
                              a1\<lparr>o_allocatorMemoryBlocks :=
                                    (o_allocatorMemoryBlocks a1)[allocatorAffinity := Some pool'],
                                  o_news := n'\<rparr>)
                    | (Inr (Some mem_ptr), pool', n') \<Rightarrow>
                        Some (Inr (Some mem_ptr),
                              a1\<lparr>o_allocatorMemoryBlocks :=
                                    (o_allocatorMemoryBlocks a1)[allocatorAffinity := Some pool'],
                                  o_news := n'\<rparr>)
                    | (Inr None, pool', n') \<Rightarrow>
                        OriginalBlockAllocator_allocate ops sys
                          (a1\<lparr>o_allocatorMemoryBlocks :=
                                (o_allocatorMemoryBlocks a1)[allocatorAffinity := Some pool'],
                              o_news := n'\<rparr>)
                          sz allocatorAffinity)))"

declare OriginalBlockAllocator_allocate.simps [code]

subsection \<open>The merge policy as the specification words it\<close>

text \<open>
  The specification's decision table for \<^verbatim>\<open>deallocate\<close>, written from its words and
  independently of the cascade above: which neighbours are free, and which merged slots
  would fit.  A slot of \<open>span\<close> elements has a payload of \<open>span - 1\<close> elements, and it
  fits when that payload is at most \<open>maximumAllocationSize\<close> bytes.
\<close>

datatype merge_action = ThreeWayMerge | MergePreviousCurrent | MergeCurrentNext | StandaloneInsert

definition spec_fits :: "MemoryBlock \<Rightarrow> nat \<Rightarrow> bool" where
  "spec_fits b span \<longleftrightarrow> sizeof_Element * (span - 1) \<le> maximumAllocationSize b"

definition spec_merge_policy :: "bool \<Rightarrow> bool \<Rightarrow> bool \<Rightarrow> bool \<Rightarrow> bool \<Rightarrow> merge_action" where
  "spec_merge_policy P_free N_free PC_fits CN_fits PCN_fits =
     (if P_free \<and> N_free then
        (if PCN_fits then ThreeWayMerge
         else if PC_fits then MergePreviousCurrent
         else if CN_fits then MergeCurrentNext
         else StandaloneInsert)
      else if P_free then (if PC_fits then MergePreviousCurrent else StandaloneInsert)
      else if N_free then (if CN_fits then MergeCurrentNext else StandaloneInsert)
      else StandaloneInsert)"

definition is_free :: "MemoryBlock \<Rightarrow> nat \<Rightarrow> bool" where
  "is_free b p \<longleftrightarrow> p \<noteq> 0 \<and> slot_status b p \<noteq> 0"


subsection \<open>The split position as the specification words it\<close>

definition ceil_div :: "nat \<Rightarrow> nat \<Rightarrow> nat" where
  "ceil_div a d = (if a mod d = 0 then a div d else a div d + 1)"

definition spec_elements_needed :: "nat \<Rightarrow> nat" where
  "spec_elements_needed sz = max (ceil_div sz sizeof_Element) 3"

definition spec_next_aligned_start :: "nat \<Rightarrow> nat \<Rightarrow> nat \<Rightarrow> nat" where
  "spec_next_aligned_start element_alignment freePosition sz =
     ceil_div (freePosition + 1 + spec_elements_needed sz) element_alignment * element_alignment"

section \<open>Well-formed blocks\<close>

text \<open>
  The invariant of the control records of a block, relative to the set \<open>S\<close> of its
  slot header positions.  It is stated over what the records hold: \<open>nx\<close> and \<open>pv\<close>
  are the \<^verbatim>\<open>next\<close> and \<^verbatim>\<open>previous\<close> offsets of a header, \<open>st\<close> its status, \<open>pf\<close>
  and \<open>nf\<close> the two link cells behind it, \<open>h\<close> the head of the free list.

  \<open>slots_ok\<close>: slots lie below the capacity, are aligned, have a positive span, leave
  room for their two link cells unless they end the block, and do not overlap; the
  offsets of neighbouring slots agree.

  \<open>links_ok\<close>: the link cells of the free slots form a doubly linked list that starts at
  the head; \<open>rk\<close> is a rank that falls along the \<^verbatim>\<open>next free\<close> links, so that the list
  has no cycle.

  \<open>wf\<close>: both hold of the block, there is one free list, the positions fit the 32-bit
  index and the largest merged slot fits the 15-bit offset.
\<close>

definition slots_ok :: "nat \<Rightarrow> nat \<Rightarrow> nat set \<Rightarrow> (nat \<Rightarrow> nat) \<Rightarrow> (nat \<Rightarrow> nat) \<Rightarrow> bool" where
  "slots_ok cap ea S nx pv \<longleftrightarrow>
     (\<forall>p\<in>S. 0 < p \<and> p < cap \<and> (p + 1) mod ea = 0 \<and> 0 < nx p \<and> p + nx p \<le> cap
              \<and> (3 \<le> nx p \<or> p + nx p = cap))
     \<and> (\<forall>p\<in>S. \<forall>q\<in>S. p < q \<longrightarrow> p + nx p \<le> q)
     \<and> (\<forall>p\<in>S. p + nx p < cap \<longrightarrow> p + nx p \<in> S \<and> pv (p + nx p) = nx p)
     \<and> (\<forall>p\<in>S. pv p \<noteq> 0 \<longrightarrow> pv p \<le> p \<and> p - pv p \<in> S \<and> nx (p - pv p) = pv p)"

definition links_ok ::
  "nat set \<Rightarrow> (nat \<Rightarrow> nat) \<Rightarrow> (nat \<Rightarrow> nat) \<Rightarrow> (nat \<Rightarrow> nat) \<Rightarrow> nat \<Rightarrow> (nat \<Rightarrow> nat) \<Rightarrow> bool"
where
  "links_ok S st pf nf h rk \<longleftrightarrow>
     (h = 0 \<or> h \<in> S \<and> st h = 1 \<and> pf h = 0)
     \<and> (\<forall>p\<in>S. st p = 1 \<longrightarrow>
            nf p = 0 \<or> nf p \<in> S \<and> st (nf p) = 1 \<and> pf (nf p) = p \<and> rk (nf p) < rk p)
     \<and> (\<forall>p\<in>S. st p = 1 \<longrightarrow>
            pf p = 0 \<and> h = p \<or> pf p \<in> S \<and> st (pf p) = 1 \<and> nf (pf p) = p)"

definition previous_free :: "MemoryBlock \<Rightarrow> nat \<Rightarrow> nat" where
  "previous_free b p = cell_index b (p + 1)"

definition next_free :: "MemoryBlock \<Rightarrow> nat \<Rightarrow> nat" where
  "next_free b p = cell_index b (p + 2)"

definition wf :: "MemoryBlock \<Rightarrow> nat set \<Rightarrow> (nat \<Rightarrow> nat) \<Rightarrow> bool" where
  "wf b S rk \<longleftrightarrow>
     0 < elementAlignment b \<and> elementAlignment b \<le> 32767
     \<and> capacity b + 65536 < 2 ^ 32 \<and> maxSize b \<le> 32767
     \<and> length (freeLists b) = 1
     \<and> slots_ok (capacity b) (elementAlignment b) S (slot_next b) (slot_previous b)
     \<and> links_ok S (slot_status b) (previous_free b) (next_free b) (head (freeList_at b 0)) rk"

section \<open>Concrete blocks\<close>

text \<open>
  A block of 64 elements with 4-byte alignment at address 4096 holding three slots: a free
  one at position 1 (8 elements), an allocated one at 9 (8 elements) and a free one at 17
  (47 elements); the free list runs 1, 17.
\<close>

definition zero_memory :: "nat \<Rightarrow> Element" where
  "zero_memory = (\<lambda>_. Element_index 0)"

definition three_slots :: MemoryBlock where
  "three_slots =
     \<lparr>memory = zero_memory
        (1 := Element_slot 0 8 1, 2 := Element_index 0, 3 := Element_index 17,
         9 := Element_slot 8 8 0,
         17 := Element_slot 8 47 1, 18 := Element_index 1, 19 := Element_index 0),
      memory_addr = 4096, memoryEnd = 4352, alignment = 4, blockAlignment = 16,
      blockSize = 256, elementAlignment = 1, capacity = 64, maximumAllocationSize = 252,
      freeLists = [\<lparr>count = 2, head = 1\<rparr>]\<rparr>"

text \<open>
  A block of 16 elements with one free slot of 8 elements at position 1, followed by an
  allocated slot of 7 elements.
\<close>

definition eight_free :: MemoryBlock where
  "eight_free =
     \<lparr>memory = zero_memory
        (1 := Element_slot 0 8 1, 2 := Element_index 0, 3 := Element_index 0,
         9 := Element_slot 8 7 0),
      memory_addr = 4096, memoryEnd = 4160, alignment = 4, blockAlignment = 16,
      blockSize = 64, elementAlignment = 1, capacity = 16, maximumAllocationSize = 60,
      freeLists = [\<lparr>count = 1, head = 1\<rparr>]\<rparr>"

text \<open>A system allocator that hands out addresses 65536, 131072, ... with zeroed contents.\<close>


definition sys0 :: sys_alloc where
  "sys0 = \<lparr>operator_new = (\<lambda>n. Some (65536 * (n + 1))), raw_memory = (\<lambda>n. zero_memory)\<rparr>"

section \<open>Evaluation of the concrete blocks\<close>

lemmas eval_defs =
  dealloc_C_def dealloc_P_def dealloc_N_def Index_def Index_sub_def sizeof_Element_def
  slot_next_def slot_status_def slot_previous_def Element_slot_def zero_memory_def
  Element_index_def within_def is_free_def spec_fits_def spec_merge_policy_def
  slotSize_def size_t_mul_def size_t_sub_def spec_elements_needed_def ceil_div_def

section \<open>MemoryBlock::allocate\<close>

lemma allocate_freeLists_all_empty:
  "\<forall>fl \<in> set fls. count fl = 0 \<Longrightarrow> allocate_freeLists b sz k fls = Some (Inr None, b)"
  by (induction fls arbitrary: k) simp_all

text \<open>
  Claim C5.  \<^verbatim>\<open>MemoryBlock::allocate(size)\<close> returns null when \<open>size\<close> exceeds
  \<open>maximumAllocationSize\<close>, and when every free list has \<open>count = 0\<close>; in both cases it
  returns (it does not loop) and the block, its control records included, is unchanged.
\<close>

theorem allocate_null_unchanged:
  "sz > maximumAllocationSize b \<or> (\<forall>fl \<in> set (freeLists b). count fl = 0)
   \<Longrightarrow> MemoryBlock_allocate b sz = Some (Inr None, b)"
  by (auto simp: MemoryBlock_allocate_def allocate_freeLists_all_empty)

theorem allocate_null_unchanged_witness:
  "maximumAllocationSize three_slots < 300
   \<and> MemoryBlock_allocate three_slots 300 = Some (Inr None, three_slots)
   \<and> map count (freeLists (three_slots\<lparr>freeLists := [\<lparr>count = 0, head = 0\<rparr>]\<rparr>)) = [0]
   \<and> MemoryBlock_allocate (three_slots\<lparr>freeLists := [\<lparr>count = 0, head = 0\<rparr>]\<rparr>) 8
       = Some (Inr None, three_slots\<lparr>freeLists := [\<lparr>count = 0, head = 0\<rparr>]\<rparr>)"
  using allocate_null_unchanged [of three_slots 300]
    allocate_null_unchanged [of "three_slots\<lparr>freeLists := [\<lparr>count = 0, head = 0\<rparr>]\<rparr>" 8]
  by (simp add: three_slots_def)

lemma ceil_div_Suc: "0 < d \<Longrightarrow> ceil_div (Suc x) d = (x + d) div d"
proof -
  assume "0 < d"
  then have "(x + d) div d = Suc (x div d)"
    using div_add_self2 [of d x] by simp
  then show ?thesis by (simp add: ceil_div_def div_Suc)
qed

lemma ceil_div_round_up: "0 < d \<Longrightarrow> (a + d - 1) div d = ceil_div a d"
proof (cases a)
  case 0
  assume "0 < d"
  with 0 show ?thesis by (simp add: ceil_div_def)
next
  case (Suc x)
  assume "0 < d"
  with Suc show ?thesis by (simp add: ceil_div_Suc)
qed

lemma numElementsToBeUsed_spec:
  "spec_elements_needed sz < 2 ^ 32 \<Longrightarrow> numElementsToBeUsed sz = spec_elements_needed sz"
  using ceil_div_round_up [of sizeof_Element sz]
  by (simp add: numElementsToBeUsed_def spec_elements_needed_def minimumNumElementsInSlot_def
      Index_def sizeof_Element_def)

lemma nextAlignedStart_spec:
  assumes "0 < elementAlignment b"
    and "freePosition + 1 + spec_elements_needed sz + elementAlignment b < 2 ^ 32"
  shows "nextAlignedStart b sz freePosition =
     ceil_div (freePosition + 2 + spec_elements_needed sz) (elementAlignment b) * elementAlignment b"
proof -
  let ?x = "freePosition + 1 + spec_elements_needed sz"
  have n: "numElementsToBeUsed sz = spec_elements_needed sz"
    using assms(2) by (intro numElementsToBeUsed_spec) simp
  have "(?x + elementAlignment b) div elementAlignment b * elementAlignment b
          \<le> ?x + elementAlignment b"
    by simp
  with assms(2) have "(?x + elementAlignment b) div elementAlignment b * elementAlignment b < 2 ^ 32"
    by linarith
  then have "nextAlignedStart b sz freePosition
      = (?x + elementAlignment b) div elementAlignment b * elementAlignment b"
    by (simp add: nextAlignedStart_def n Index_def)
  also have "(?x + elementAlignment b) div elementAlignment b = ceil_div (Suc ?x) (elementAlignment b)"
    using assms(1) by (simp add: ceil_div_Suc)
  finally show ?thesis by (simp add: add.commute add.left_commute)
qed

text \<open>
  Claim C2, as the source has it.  For a candidate free slot at \<open>freePosition\<close> (free, and
  large enough for \<open>size\<close>), with positions that fit the 32-bit index: the position after
  the consumed region is
  \<open>ceil ((freePosition + 2 + elements_needed) / element_alignment) * element_alignment\<close>,
  which is the source's \<open>(freePosition + 1 + elements_needed + element_alignment)\<close> divided
  by the alignment, rounded down and multiplied back, with
  \<open>elements_needed = max (ceil (size / sizeof(Element))) 3\<close>; and the walk returns the
  payload address of the slot, having split the slot iff that position plus 3 is below the
  slot's end position, and having removed it from the free list otherwise.
\<close>

theorem allocate_split_rule:
  assumes "0 < elementAlignment b" and "freePosition \<noteq> 0"
    and "slot_status b freePosition = 1" and "sz \<le> slotSize b freePosition"
    and "freePosition + 1 + spec_elements_needed sz + elementAlignment b + 3 < 2 ^ 32"
  shows "nextAlignedStart b sz freePosition =
       ceil_div (freePosition + 2 + spec_elements_needed sz) (elementAlignment b)
         * elementAlignment b
     \<and> walk_freeList b k sz freePosition =
       Some (Some (Inr (Some (memory_addr b + sizeof_Element * (freePosition + 1))),
         set_status
           (if nextAlignedStart b sz freePosition + 3
                 < Index (freePosition + slot_next b freePosition)
            then split_slot b k sz freePosition else remove_slot b k freePosition)
           freePosition 0))"
proof
  show "nextAlignedStart b sz freePosition =
       ceil_div (freePosition + 2 + spec_elements_needed sz) (elementAlignment b)
         * elementAlignment b"
    using assms(1,5) by (intro nextAlignedStart_spec) simp_all
  have "nextAlignedStart b sz freePosition
          \<le> freePosition + 1 + numElementsToBeUsed sz + elementAlignment b"
    unfolding nextAlignedStart_def Index_def
    by (rule order_trans [OF mod_less_eq_dividend]) simp
  moreover have "numElementsToBeUsed sz = spec_elements_needed sz"
    using assms(5) by (intro numElementsToBeUsed_spec) simp
  ultimately have "nextAlignedStart b sz freePosition + 3 < 2 ^ 32"
    using assms(5) by simp
  then have "minimumAlignedEnd b sz freePosition = nextAlignedStart b sz freePosition + 3"
    by (simp add: minimumAlignedEnd_def Index_def minimumNumElementsInSlot_def)
  then show "walk_freeList b k sz freePosition =
       Some (Some (Inr (Some (memory_addr b + sizeof_Element * (freePosition + 1))),
         set_status
           (if nextAlignedStart b sz freePosition + 3
                 < Index (freePosition + slot_next b freePosition)
            then split_slot b k sz freePosition else remove_slot b k freePosition)
           freePosition 0))"
    using assms(2,3,4)
    by (subst walk_freeList.simps) (simp add: use_slot_def Let_def)
qed

theorem allocate_split_rule_witness:
  "0 < elementAlignment three_slots \<and> (17::nat) \<noteq> 0 \<and> slot_status three_slots 17 = 1
   \<and> 8 \<le> slotSize three_slots 17
   \<and> 17 + 1 + spec_elements_needed 8 + elementAlignment three_slots + 3 < (2::nat) ^ 32
   \<and> nextAlignedStart three_slots 8 17 = 22
   \<and> walk_freeList three_slots 0 8 17 =
       Some (Some (Inr (Some 4168), set_status (split_slot three_slots 0 8 17) 17 0))"
  using allocate_split_rule [of three_slots 17 8 0]
  by (simp add: three_slots_def eval_defs)

text \<open>
  Claim C2 as stated fails.  In the block \<open>eight_free\<close> (alignment of one element) a
  request of 4 bytes meets the free slot at position 1, which spans 8 elements and ends at
  position 9.  The stated formula gives \<open>ceil ((1 + 1 + 3) / 1) * 1 = 5\<close> and, since
  \<open>5 + 3 < 9\<close>, a split; the source computes 6, finds \<open>6 + 3 < 9\<close> false, and hands out
  the whole slot: the free list is empty afterwards and the slot still spans 8 elements.
\<close>

theorem next_aligned_start_counterexample:
  "nextAlignedStart eight_free 4 1 = 6
   \<and> spec_next_aligned_start (elementAlignment eight_free) 1 4 = 5
   \<and> spec_next_aligned_start (elementAlignment eight_free) 1 4 + 3 < 1 + slot_next eight_free 1
   \<and> walk_freeList eight_free 0 4 1 =
        Some (Some (Inr (Some 4104), set_status (remove_slot eight_free 0 1) 1 0))
   \<and> freeLists (set_status (remove_slot eight_free 0 1) 1 0) = [\<lparr>count = 0, head = 0\<rparr>]
   \<and> slot_next (set_status (remove_slot eight_free 0 1) 1 0) 1 = 8"
  apply (subst walk_freeList.simps)
  apply (simp add: eight_free_def eval_defs spec_next_aligned_start_def nextAlignedStart_def
       numElementsToBeUsed_def minimumNumElementsInSlot_def use_slot_def minimumAlignedEnd_def
       remove_slot_def set_status_def set_Element_def set_count_def set_head_def set_index_def
       freeList_at_def decrement_def cell_index_def index_def Let_def)
  done

section \<open>The constructor of MemoryBlock\<close>






lemma mem_chain_cong:
  "(\<And>i. p \<le> i \<Longrightarrow> mem i = mem' i) \<Longrightarrow> mem_chain mem ea cap p n = mem_chain mem' ea cap p n"
  by (induction n arbitrary: p) auto


lemma wrap_sub: "b \<le> a \<Longrightarrow> a < m \<Longrightarrow> (a mod m + m - b mod m) mod m = a - (b::nat)"
proof -
  assume h: "b \<le> a" "a < m"
  then have e1: "a mod m + m - b mod m = (a - b) + m" by simp
  have e2: "((a - b) + m) mod m = a - b"
    using h by (metis less_imp_diff_less mod_add_self2 mod_less)
  show ?thesis by (simp only: e1 e2)
qed


lemma Index_sub_eq: "b \<le> a \<Longrightarrow> a < 2 ^ 32 \<Longrightarrow> Index_sub a b = a - b"
  unfolding Index_sub_def by (rule wrap_sub)



lemma aligned_start:
  assumes "0 < ea" "(position + 1) mod ea = 0"
  shows "(position + max_slot_size) div ea * ea = position + 1 + (32767 div ea) * ea"
proof -
  obtain q where q: "position + 1 = q * ea"
    using assms(2) by (auto simp: mod_eq_0_iff_dvd dvd_def mult.commute)
  have "position + max_slot_size = q * ea + 32767"
    using q by (simp add: max_slot_size_def)
  then have "(position + max_slot_size) div ea = q + 32767 div ea"
    using assms(1) by simp
  then show ?thesis using q by (simp add: algebra_simps)
qed









section \<open>MemoryBlock::deallocate\<close>





text \<open>
  Claim C9.  For a pointer within the block whose slot header has \<open>status = 1\<close>,
  \<^verbatim>\<open>deallocate\<close> throws (the check of \<^verbatim>\<open>slot.next == 0\<close> comes first and throws as well)
  and the block is as it was when the exception leaves the function.
\<close>

theorem deallocate_free_slot_throws:
  "within b ptr \<Longrightarrow> freeLists b \<noteq> [] \<Longrightarrow> slot_status b (dealloc_C b ptr) = 1
   \<Longrightarrow> MemoryBlock_deallocate b ptr sz =
       (Inl (if slot_next b (dealloc_C b ptr) = 0 then SlotNextZero else AlreadyAvailableSlot), b)"
  by (simp add: MemoryBlock_deallocate_def Let_def)

theorem deallocate_free_slot_throws_witness:
  "within three_slots 4104 \<and> freeLists three_slots \<noteq> []
   \<and> slot_status three_slots (dealloc_C three_slots 4104) = 1
   \<and> MemoryBlock_deallocate three_slots 4104 28 = (Inl AlreadyAvailableSlot, three_slots)"
  using deallocate_free_slot_throws [of three_slots 4104 28]
  by (simp add: three_slots_def eval_defs)

text \<open>
  Claim C10.  \<^verbatim>\<open>MemoryBlock::deallocate\<close> does not look at its size argument: on the same
  block and pointer, any two sizes give the same outcome and the same block afterwards.
\<close>

theorem deallocate_ignores_size:
  "MemoryBlock_deallocate b ptr s1 = MemoryBlock_deallocate b ptr s2"
  by (simp add: MemoryBlock_deallocate_def)

section \<open>The allocators\<close>

text \<open>
  Claim C3 does not hold of the source.  Both \<^verbatim>\<open>allocate\<close> functions grow the vector only
  when \<^verbatim>\<open>allocatorAffinity > allocatorMemoryBlocks.size()\<close>.  On a new allocator, whose
  vector has 4 entries, affinity 4 is not greater than the size: nothing grows and the
  subscript \<^verbatim>\<open>allocatorMemoryBlocks[4]\<close> is out of range.
\<close>

theorem allocate_affinity_equal_size:
  "IntrusiveAllocator_allocate cmas sys (IntrusiveAllocator_new cmas nested) sz 4
     = Some (Inl OutOfRange, IntrusiveAllocator_new cmas nested)
   \<and> OriginalBlockAllocator_allocate ops sys (OriginalBlockAllocator_new al) sz 4
     = Some (Inl OutOfRange, OriginalBlockAllocator_new al)"
  by (simp add: IntrusiveAllocator_allocate_def IntrusiveAllocator_new_def
      OriginalBlockAllocator_allocate.simps OriginalBlockAllocator_new_def
      ALLOCATOR_AFFINITY_LAST_def resize_def)

lemma null_entry_never_returns:
  assumes "allocatorAffinity < length (o_allocatorMemoryBlocks a)"
    and "o_allocatorMemoryBlocks a ! allocatorAffinity = None"
  shows "OriginalBlockAllocator_allocate ops sys a sz allocatorAffinity = None"
proof (rule ccontr)
  assume "OriginalBlockAllocator_allocate ops sys a sz allocatorAffinity \<noteq> None"
  then obtain y where y: "OriginalBlockAllocator_allocate ops sys a sz allocatorAffinity = Some y"
    by auto
  have "\<not> (allocatorAffinity < length (o_allocatorMemoryBlocks a)
            \<and> o_allocatorMemoryBlocks a ! allocatorAffinity = None)"
  proof (rule OriginalBlockAllocator_allocate.raw_induct
      [where P = "\<lambda>ops sys a sz k y.
          \<not> (k < length (o_allocatorMemoryBlocks a) \<and> o_allocatorMemoryBlocks a ! k = None)",
        OF _ y], goal_cases)
    case (1 f ops sys a sz k y)
    show ?case
    proof
      assume h: "k < length (o_allocatorMemoryBlocks a) \<and> o_allocatorMemoryBlocks a ! k = None"
      with 1(2) have "f ops sys a sz k = Some y"
        by (simp add: Let_def)
      from 1(1) [OF this] h show False by simp
    qed
  qed
  with assms show False by simp
qed

text \<open>
  Claim C4 does not hold of the source.  \<^verbatim>\<open>setBlockSize(6, bs)\<close> on a new
  \<^verbatim>\<open>OriginalBlockAllocator\<close> grows the vector to 7 entries and leaves entries 4 and 5
  null.  \<^verbatim>\<open>allocate(size, 5)\<close> then finds a null entry and calls itself with the same
  arguments in the same state, without end.
\<close>

theorem allocate_null_entry_never_returns:
  "\<exists>a. OriginalBlockAllocator_setBlockSize (OriginalBlockAllocator_new al) 6 bs = Inr a
       \<and> OriginalBlockAllocator_allocate ops sys a sz 5 = None"
  by (simp add: OriginalBlockAllocator_setBlockSize_def OriginalBlockAllocator_new_def
      ALLOCATOR_AFFINITY_LAST_def resize_def null_entry_never_returns nth_append)

text \<open>
  Claim C6 does not hold of the source.  On a new \<^verbatim>\<open>IntrusiveAllocator\<close> a request one byte
  above the pool's maximum is served by \<^verbatim>\<open>operator new\<close> and recorded in
  \<^verbatim>\<open>largeAllocations\<close>; the map \<^verbatim>\<open>memoryBlocks\<close> is still empty, so \<^verbatim>\<open>deallocate\<close> of
  that pointer returns false at its first line and the record stays.
\<close>

theorem large_allocation_roundtrip_fails:
  "IntrusiveAllocator_allocate cmas sys0 (IntrusiveAllocator_new cmas None) (cmas Megabyte 4 + 1) 0
     = Some (Inr (Some 65536),
         (IntrusiveAllocator_new cmas None)
           \<lparr>largeAllocations := [(65536, cmas Megabyte 4 + 1)], news := 1\<rparr>)
   \<and> IntrusiveAllocator_deallocate
        ((IntrusiveAllocator_new cmas None)
           \<lparr>largeAllocations := [(65536, cmas Megabyte 4 + 1)], news := 1\<rparr>)
        65536 (cmas Megabyte 4 + 1)
     = (Inr False,
        (IntrusiveAllocator_new cmas None)
           \<lparr>largeAllocations := [(65536, cmas Megabyte 4 + 1)], news := 1\<rparr>)"
  by (simp add: IntrusiveAllocator_allocate_def IntrusiveAllocator_new_def
      IntrusiveAllocator_deallocate_def large_allocation_def sys0_def MemoryBlocks_new_def
      ALLOCATOR_AFFINITY_LAST_def resize_def)

end
